theory Spec2Isabelle
  imports Complex_Main
begin

section \<open>Complex permeability from impedance measurements\<close>

text \<open>
  The development embeds \<^verbatim>\<open>calculate_permeability\<close> of
  \<^verbatim>\<open>scripts/permeability_calculator.py\<close>.

  Number model. The arrays hold IEEE doubles and complex doubles.  They are embedded as
  exact \<open>real\<close> and \<open>complex\<close> numbers: rounding, overflow and underflow are not part of
  the model, and the inputs are finite numbers.  What the model does keep is the one
  event that leaves the finite numbers in exact arithmetic: a division by zero.  NumPy
  does not raise there; the quotient is \<open>inf\<close> or \<open>nan\<close>.  Such a non-finite
  element is the value \<open>None\<close>, a finite element \<open>x\<close> is \<open>Some x\<close>.
\<close>

subsection \<open>Data\<close>

text \<open>
  \<^verbatim>\<open>sample_dimensions\<close> is a dictionary read at exactly four fixed keys (lines 46-49),
  so it is a record of these four fields.  \<^verbatim>\<open>turns\<close> is an integer count.
\<close>

record sample_dimensions =
  outer_diameter :: real
  inner_diameter :: real
  height :: real
  turns :: int

datatype np_error = ValueError

text \<open>
  One-dimensional arrays are lists.  A binary NumPy operation on two one-dimensional
  arrays broadcasts: equal lengths pair up elementwise, a length-one array is stretched
  to the other length, and any other pair of lengths raises \<^verbatim>\<open>ValueError\<close>.
\<close>

definition broadcast :: "'a list \<Rightarrow> 'b list \<Rightarrow> ('a list \<times> 'b list) option" where
  "broadcast xs ys =
     (if length xs = length ys then Some (xs, ys)
      else if length xs = 1 then Some (replicate (length ys) (hd xs), ys)
      else if length ys = 1 then Some (xs, replicate (length xs) (hd ys))
      else None)"

text \<open>
  Division of array elements outside any guard (line 69): a zero divisor gives a
  non-finite element, with a warning and no exception.
\<close>

definition np_divide :: "real \<Rightarrow> real \<Rightarrow> real option" where
  "np_divide a b = (if b = 0 then None else Some (a / b))"

text \<open>
  \<^verbatim>\<open>np.where(c != 0, a / c, 0)\<close> under \<^verbatim>\<open>np.errstate\<close> (lines 61-62 and 76-78):
  the quotient is computed everywhere, and where the divisor is zero it is dropped for
  the constant 0, so the selected element is always finite.
\<close>

definition where_nonzero_divide :: "real \<Rightarrow> real \<Rightarrow> real" where
  "where_nonzero_divide a c = (if c \<noteq> 0 then a / c else 0)"

text \<open>Line 82: a product with a non-finite factor is non-finite.\<close>

definition np_multiply :: "real option \<Rightarrow> real \<Rightarrow> real option" where
  "np_multiply m l = (case m of None \<Rightarrow> None | Some v \<Rightarrow> Some (v * l))"

text \<open>Line 84: \<^verbatim>\<open>mu_real - 1j * mu_imag\<close> on one element.\<close>

definition sub_1j_mul :: "real option \<Rightarrow> real option \<Rightarrow> complex option" where
  "sub_1j_mul a b =
     (case a of None \<Rightarrow> None
      | Some x \<Rightarrow> (case b of None \<Rightarrow> None
          | Some y \<Rightarrow> Some (complex_of_real x - \<i> * complex_of_real y)))"

subsection \<open>The calculator\<close>

text \<open>
  The body follows lines 46-86 one binding per source line.  The two input arrays first
  meet in the quotient of line 62, where a shape mismatch raises; every later array has
  the broadcast shape.
\<close>

definition calculate_permeability ::
  "complex list \<Rightarrow> real list \<Rightarrow> sample_dimensions \<Rightarrow>
   np_error + (complex option list \<times> real option list \<times> real option list)" where
  "calculate_permeability impedance frequency sd =
     (let outer_d = outer_diameter sd;
          inner_d = inner_diameter sd;
          height = height sd;
          turns = turns sd;
          mean_diameter = (outer_d + inner_d) / 2;
          cross_section_area = height * (outer_d - inner_d) / 2;
          mean_length = pi * mean_diameter;
          omega0 = map (\<lambda>f. 2 * pi * f) frequency
      in case broadcast impedance omega0 of
           None \<Rightarrow> Inl ValueError
         | Some (impedance, omega) \<Rightarrow>
             (let inductance = map2 where_nonzero_divide (map Im impedance) omega;
                  mu_0 = 4 * pi * (1 / 10 ^ 7);
                  permeability =
                    map (\<lambda>l. np_divide (l * mean_length)
                                (mu_0 * of_int (turns ^ 2) * cross_section_area)) inductance;
                  resistance = map Re impedance;
                  denominator = map2 (*) omega inductance;
                  loss_factor = map2 where_nonzero_divide resistance denominator;
                  mu_real = permeability;
                  mu_imag = map2 np_multiply mu_real loss_factor;
                  complex_permeability = map2 sub_1j_mul mu_real mu_imag
              in Inr (complex_permeability, mu_real, mu_imag)))"

subsection \<open>One index of the arrays\<close>

text \<open>
  Every array operation of the body is elementwise, so element \<open>i\<close> of each output is a
  function of \<open>impedance[i]\<close>, \<open>frequency[i]\<close> and the dimensions alone.  The two
  functions below name that element for \<^verbatim>\<open>mu_real\<close> (lines 58-69 and 81) and for
  \<^verbatim>\<open>loss_factor\<close> (lines 73-78); lemma \<open>calculate_permeability_same_length\<close>
  proves that the arrays computed by \<open>calculate_permeability\<close> consist of exactly these
  elements.
\<close>

definition mu_real_elem :: "sample_dimensions \<Rightarrow> complex \<Rightarrow> real \<Rightarrow> real option" where
  "mu_real_elem sd z f =
     np_divide (where_nonzero_divide (Im z) (2 * pi * f)
                  * (pi * ((outer_diameter sd + inner_diameter sd) / 2)))
       (4 * pi * (1 / 10 ^ 7) * of_int ((turns sd) ^ 2)
          * (height sd * (outer_diameter sd - inner_diameter sd) / 2))"

definition loss_factor_elem :: "complex \<Rightarrow> real \<Rightarrow> real" where
  "loss_factor_elem z f =
     where_nonzero_divide (Re z) (2 * pi * f * where_nonzero_divide (Im z) (2 * pi * f))"

subsection \<open>Sample geometry\<close>

text \<open>
  The calculator does not validate the dimensions.  The invariant that its callers are
  to establish: outer diameter above inner diameter above zero, positive height, at
  least one turn.
\<close>

definition sample_geometry_invariant :: "sample_dimensions \<Rightarrow> bool" where
  "sample_geometry_invariant sd \<longleftrightarrow>
     inner_diameter sd < outer_diameter sd \<and> 0 < inner_diameter sd \<and>
     0 < height sd \<and> 1 \<le> turns sd"

text \<open>The dimensions of \<^verbatim>\<open>example_usage\<close> (lines 135-140): a 20 mm by 10 mm by 5 mm
  toroid with 10 turns.\<close>

definition example_dimensions :: sample_dimensions where
  "example_dimensions =
     \<lparr>outer_diameter = 20 / 1000, inner_diameter = 10 / 1000, height = 5 / 1000, turns = 10\<rparr>"

section \<open>Properties\<close>

subsection \<open>Shapes and the elementwise form\<close>

lemma broadcast_same_length:
  "length xs = length ys \<Longrightarrow> broadcast xs ys = Some (xs, ys)"
  by (simp add: broadcast_def)

lemma calculate_permeability_same_length:
  assumes "length impedance = length frequency"
  shows "calculate_permeability impedance frequency sd =
    Inr (map2 (\<lambda>z f. sub_1j_mul (mu_real_elem sd z f)
                 (np_multiply (mu_real_elem sd z f) (loss_factor_elem z f))) impedance frequency,
         map2 (mu_real_elem sd) impedance frequency,
         map2 (\<lambda>z f. np_multiply (mu_real_elem sd z f) (loss_factor_elem z f))
           impedance frequency)"
  using assms
  apply (simp add: calculate_permeability_def Let_def broadcast_same_length)
  apply (intro conjI nth_equalityI)
  apply (simp_all add: mu_real_elem_def loss_factor_elem_def)
  done

text \<open>Two arrays of lengths 2 and 3 do not broadcast: the call raises.\<close>

lemma shape_mismatch_raises:
  "calculate_permeability [z1, z2] [f1, f2, f3] sd = Inl ValueError"
  by (simp add: calculate_permeability_def broadcast_def)

text \<open>A length-one impedance array is stretched over the frequencies.\<close>

lemma length_one_impedance_broadcasts:
  "\<exists>cp mr mi. calculate_permeability [z] [f1, f2, f3] sd = Inr (cp, mr, mi) \<and> length mr = 3"
  by (simp add: calculate_permeability_def broadcast_def Let_def)

subsection \<open>The divisor of line 69\<close>

lemma invariant_divisor_nonzero:
  assumes "sample_geometry_invariant sd"
  shows "4 * pi * (1 / 10 ^ 7) * of_int ((turns sd) ^ 2)
          * (height sd * (outer_diameter sd - inner_diameter sd) / 2) \<noteq> 0"
  using assms by (auto simp: sample_geometry_invariant_def)

lemma mu_real_elem_invariant:
  assumes "sample_geometry_invariant sd"
  shows "mu_real_elem sd z f =
     Some (where_nonzero_divide (Im z) (2 * pi * f)
                  * (pi * ((outer_diameter sd + inner_diameter sd) / 2)) /
       (4 * pi * (1 / 10 ^ 7) * of_int ((turns sd) ^ 2)
          * (height sd * (outer_diameter sd - inner_diameter sd) / 2)))"
  using invariant_divisor_nonzero[OF assms]
  unfolding mu_real_elem_def np_divide_def by simp

lemma example_dimensions_invariant: "sample_geometry_invariant example_dimensions"
  by (simp add: sample_geometry_invariant_def example_dimensions_def)

text \<open>
  Outside the invariant the divisor can be zero.  With equal diameters the cross
  section is zero and every element of all three outputs is non-finite, at zero
  frequency too.
\<close>

lemma degenerate_geometry_non_finite:
  assumes "outer_diameter sd = inner_diameter sd"
    and "length impedance = length frequency"
    and "i < length frequency"
  shows "\<exists>cp mr mi. calculate_permeability impedance frequency sd = Inr (cp, mr, mi) \<and>
     cp ! i = None \<and> mr ! i = None \<and> mi ! i = None"
  using assms
  by (simp add: calculate_permeability_same_length mu_real_elem_def np_divide_def
      np_multiply_def sub_1j_mul_def)

text \<open>Under the invariant no division by zero occurs: every element is \<open>Some\<close>.\<close>

lemma invariant_no_division_by_zero:
  assumes "sample_geometry_invariant sd"
    and "length impedance = length frequency"
    and "i < length frequency"
  shows "\<exists>cp mr mi a b c. calculate_permeability impedance frequency sd = Inr (cp, mr, mi) \<and>
     cp ! i = Some c \<and> mr ! i = Some a \<and> mi ! i = Some b"
  using assms
  by (simp add: calculate_permeability_same_length mu_real_elem_invariant
      np_multiply_def sub_1j_mul_def)

subsection \<open>Shape preservation\<close>

text \<open>
  Claim C7.  For N impedance samples and N frequency samples, N \<ge> 0, the call returns,
  and each of the three returned sequences (complex permeability, real part, imaginary
  part) has length exactly N; for N = 0 the three outputs are empty.
\<close>

theorem shape_preservation:
  assumes "length impedance = N" and "length frequency = N"
  shows "(\<exists>cp mr mi. calculate_permeability impedance frequency sd = Inr (cp, mr, mi)
            \<and> length cp = N \<and> length mr = N \<and> length mi = N)
         \<and> calculate_permeability [] [] sd = Inr ([], [], [])"
  using assms by (simp add: calculate_permeability_same_length)

theorem shape_preservation_witness:
  "length [Complex 1 2, Complex 3 4] = 2 \<and> length [0, 5 :: real] = 2 \<and>
   ((\<exists>cp mr mi. calculate_permeability [Complex 1 2, Complex 3 4] [0, 5] example_dimensions
        = Inr (cp, mr, mi) \<and> length cp = 2 \<and> length mr = 2 \<and> length mi = 2)
    \<and> calculate_permeability [] [] example_dimensions = Inr ([], [], []))"
  using shape_preservation [of "[Complex 1 2, Complex 3 4]" 2 "[0, 5]" example_dimensions]
  by simp

subsection \<open>The real part\<close>

text \<open>
  Claim C1.  For dimensions within the invariant and every index \<open>i\<close>: when
  \<open>omega_i = 2 * pi * frequency[i]\<close> is not zero, the returned \<open>mu_real[i]\<close> is
  \<open>(Im(impedance[i]) / omega_i * mean_length) / (mu_0 * turns^2 * cross_section_area)\<close>
  with \<open>mean_length = pi * (outer + inner) / 2\<close>,
  \<open>cross_section_area = height * (outer - inner) / 2\<close> and \<open>mu_0 = 4 * pi * 1e-7\<close>;
  when \<open>omega_i\<close> is zero, \<open>mu_real[i]\<close> is 0.
\<close>

theorem mu_real_formula:
  assumes "sample_geometry_invariant sd"
    and "length impedance = length frequency"
    and "i < length frequency"
  shows "\<exists>cp mr mi. calculate_permeability impedance frequency sd = Inr (cp, mr, mi) \<and>
     mr ! i = Some
       (if 2 * pi * frequency ! i \<noteq> 0
        then (Im (impedance ! i) / (2 * pi * frequency ! i)
                * (pi * (outer_diameter sd + inner_diameter sd) / 2))
             / (4 * pi * (1 / 10 ^ 7) * (of_int (turns sd))\<^sup>2
                  * (height sd * (outer_diameter sd - inner_diameter sd) / 2))
        else 0)"
  using assms
  by (simp add: calculate_permeability_same_length mu_real_elem_invariant
      where_nonzero_divide_def)

theorem mu_real_formula_witness:
  "sample_geometry_invariant example_dimensions \<and>
   length [Complex 1 2, Complex 3 4] = length [0, 5 :: real] \<and>
   (1 :: nat) < length [0, 5 :: real] \<and>
   (\<exists>cp mr mi. calculate_permeability [Complex 1 2, Complex 3 4] [0, 5] example_dimensions
        = Inr (cp, mr, mi) \<and>
      mr ! 1 = Some (4 / (2 * pi * 5) * (pi * (20 / 1000 + 10 / 1000) / 2)
                     / (4 * pi * (1 / 10 ^ 7) * 10\<^sup>2
                          * (5 / 1000 * (20 / 1000 - 10 / 1000) / 2))))"
  using mu_real_formula [OF example_dimensions_invariant,
      of "[Complex 1 2, Complex 3 4]" "[0, 5]" 1]
    example_dimensions_invariant
  by (simp add: example_dimensions_def)

subsection \<open>Zero frequency\<close>

text \<open>
  Claim C3.  For dimensions within the invariant and every index \<open>i\<close> with
  \<open>frequency[i] = 0\<close>, the returned \<open>mu_imag[i]\<close> is exactly 0 whatever the impedance
  at that index is, and \<open>mu_real[i]\<close> is 0 as well.
\<close>

theorem zero_frequency_masking:
  assumes "sample_geometry_invariant sd"
    and "length impedance = length frequency"
    and "i < length frequency"
    and "frequency ! i = 0"
  shows "\<exists>cp mr mi. calculate_permeability impedance frequency sd = Inr (cp, mr, mi) \<and>
     mi ! i = Some 0 \<and> mr ! i = Some 0"
  using assms
  by (simp add: calculate_permeability_same_length mu_real_elem_invariant
      where_nonzero_divide_def loss_factor_elem_def np_multiply_def)

theorem zero_frequency_masking_witness:
  "sample_geometry_invariant example_dimensions \<and>
   length [Complex 1 2, Complex 3 4] = length [0, 5 :: real] \<and>
   (0 :: nat) < length [0, 5 :: real] \<and> [0, 5 :: real] ! 0 = 0 \<and>
   (\<exists>cp mr mi. calculate_permeability [Complex 1 2, Complex 3 4] [0, 5] example_dimensions
        = Inr (cp, mr, mi) \<and> mi ! 0 = Some 0 \<and> mr ! 0 = Some 0)"
  using zero_frequency_masking [OF example_dimensions_invariant,
      of "[Complex 1 2, Complex 3 4]" "[0, 5]" 0]
    example_dimensions_invariant
  by simp

subsection \<open>Sign convention\<close>

text \<open>
  Claim C4.  For dimensions within the invariant and every index \<open>i\<close>, the returned
  \<open>complex_permeability[i]\<close> equals \<open>mu_real[i] - 1j * mu_imag[i]\<close>, so its imaginary
  part is \<open>- mu_imag[i]\<close>, while the returned \<open>mu_imag[i]\<close> itself is the un-negated
  product \<open>mu_real[i] * loss_factor_i\<close>: the minus sign stands in the complex
  combination only.
\<close>

theorem sign_convention:
  assumes "sample_geometry_invariant sd"
    and "length impedance = length frequency"
    and "i < length frequency"
  shows "\<exists>cp mr mi a b. calculate_permeability impedance frequency sd = Inr (cp, mr, mi) \<and>
     mr ! i = Some a \<and> mi ! i = Some b \<and>
     cp ! i = Some (complex_of_real a - \<i> * complex_of_real b) \<and>
     cp ! i = Some (Complex a (- b)) \<and>
     b = a * (let omega = 2 * pi * frequency ! i;
                  inductance = (if omega \<noteq> 0 then Im (impedance ! i) / omega else 0)
              in if omega * inductance \<noteq> 0
                 then Re (impedance ! i) / (omega * inductance) else 0)"
  using assms
  by (simp add: calculate_permeability_same_length mu_real_elem_invariant
      where_nonzero_divide_def loss_factor_elem_def np_multiply_def sub_1j_mul_def
      complex_eq_iff Let_def)

theorem sign_convention_witness:
  "sample_geometry_invariant example_dimensions \<and>
   length [Complex 1 2, Complex 3 4] = length [0, 5 :: real] \<and>
   (1 :: nat) < length [0, 5 :: real] \<and>
   (\<exists>cp mr mi a b. calculate_permeability [Complex 1 2, Complex 3 4] [0, 5] example_dimensions
        = Inr (cp, mr, mi) \<and> mr ! 1 = Some a \<and> mi ! 1 = Some b \<and>
      cp ! 1 = Some (complex_of_real a - \<i> * complex_of_real b) \<and>
      cp ! 1 = Some (Complex a (- b)) \<and>
      b = a * (3 / (2 * pi * 5 * (4 / (2 * pi * 5)))))"
  using sign_convention [OF example_dimensions_invariant,
      of "[Complex 1 2, Complex 3 4]" "[0, 5]" 1]
    example_dimensions_invariant
  by (simp add: Let_def)

subsection \<open>The loss factor and its guard\<close>

text \<open>
  Claim C5.  For dimensions within the invariant and every index \<open>i\<close>, with
  \<open>omega_i = 2 * pi * frequency[i]\<close> and \<open>inductance_i\<close> the guarded quotient of line 62,
  \<open>loss_factor_i\<close> is \<open>Re(impedance[i]) / (omega_i * inductance_i)\<close> when
  \<open>omega_i * inductance_i\<close> is not zero and 0 otherwise, and the returned \<open>mu_imag[i]\<close>
  is \<open>mu_real[i] * loss_factor_i\<close>; in particular \<open>mu_imag[i]\<close> is exactly 0 whenever
  \<open>omega_i * inductance_i = 0\<close>.  Both guards read index \<open>i\<close> alone.
\<close>

theorem loss_factor_guard:
  assumes "sample_geometry_invariant sd"
    and "length impedance = length frequency"
    and "i < length frequency"
  shows "\<exists>cp mr mi m. calculate_permeability impedance frequency sd = Inr (cp, mr, mi) \<and>
     mr ! i = Some m \<and>
     (let omega = 2 * pi * frequency ! i;
          inductance = (if omega \<noteq> 0 then Im (impedance ! i) / omega else 0);
          loss_factor = (if omega * inductance \<noteq> 0
                         then Re (impedance ! i) / (omega * inductance) else 0)
      in mi ! i = Some (m * loss_factor) \<and>
         (omega * inductance = 0 \<longrightarrow> mi ! i = Some 0))"
  using assms
  by (simp add: calculate_permeability_same_length mu_real_elem_invariant
      where_nonzero_divide_def loss_factor_elem_def np_multiply_def Let_def)

text \<open>
  The witness takes a non-zero frequency with zero reactance: the guard on \<open>omega\<close>
  passes, the guard on \<open>omega * inductance\<close> does not.
\<close>

theorem loss_factor_guard_witness:
  "sample_geometry_invariant example_dimensions \<and>
   length [Complex 1 2, Complex 3 0] = length [0, 5 :: real] \<and>
   (1 :: nat) < length [0, 5 :: real] \<and>
   (\<exists>cp mr mi m. calculate_permeability [Complex 1 2, Complex 3 0] [0, 5] example_dimensions
        = Inr (cp, mr, mi) \<and> mr ! 1 = Some m \<and> mi ! 1 = Some (m * 0) \<and> mi ! 1 = Some 0)"
  using loss_factor_guard [OF example_dimensions_invariant,
      of "[Complex 1 2, Complex 3 0]" "[0, 5]" 1]
    example_dimensions_invariant
  by (simp add: Let_def)

subsection \<open>Identities of exact arithmetic\<close>

text \<open>
  The two lemmas below are facts of the exact-real number model only.  Each equates two
  computations that double arithmetic rounds differently (the scaled against the
  unscaled quotient; the product of line 82 against its cancelled form), so neither is
  a statement about the doubles the program returns: there the two sides agree up to
  rounding, and not at all once a quotient overflows or underflows.
\<close>

lemma mu_real_elem_scale:
  "k \<noteq> 0 \<Longrightarrow>
   mu_real_elem sd (complex_of_real k * z) f = map_option (\<lambda>v. k * v) (mu_real_elem sd z f)"
  by (simp add: mu_real_elem_def np_divide_def where_nonzero_divide_def)

lemma loss_factor_elem_scale:
  "k \<noteq> 0 \<Longrightarrow> loss_factor_elem (complex_of_real k * z) f = loss_factor_elem z f"
  by (simp add: loss_factor_elem_def where_nonzero_divide_def)

lemma exact_real_scaling:
  assumes "k \<noteq> 0"
    and "length impedance = length frequency"
    and "i < length frequency"
  shows "\<exists>cp mr mi cp' mr' mi'.
     calculate_permeability impedance frequency sd = Inr (cp, mr, mi) \<and>
     calculate_permeability (map (\<lambda>z. complex_of_real k * z) impedance) frequency sd
       = Inr (cp', mr', mi') \<and>
     mr' ! i = map_option (\<lambda>v. k * v) (mr ! i) \<and>
     mi' ! i = map_option (\<lambda>v. k * v) (mi ! i)"
  using assms
  by (simp add: calculate_permeability_same_length mu_real_elem_scale loss_factor_elem_scale
      np_multiply_def map_option_case split: option.splits)

lemma exact_real_mu_imag_cancelled:
  assumes "sample_geometry_invariant sd" and "f \<noteq> 0" and "Im z \<noteq> 0"
  shows "np_multiply (mu_real_elem sd z f) (loss_factor_elem z f) =
     Some ((Re z * (pi * (outer_diameter sd + inner_diameter sd) / 2))
           / (4 * pi * (1 / 10 ^ 7) * (of_int (turns sd))\<^sup>2
                * (height sd * (outer_diameter sd - inner_diameter sd) / 2)
                * (2 * pi * f)))"
  using assms invariant_divisor_nonzero[OF assms(1)]
  by (simp add: mu_real_elem_invariant np_multiply_def loss_factor_elem_def
      where_nonzero_divide_def field_simps)

subsection \<open>A 1 microhenry inductor at 1 MHz\<close>

text \<open>
  Claim C2, as the code has it.  For the dimensions outer 20 mm, inner 10 mm, height
  5 mm, 10 turns, the single frequency \<open>1e6\<close> Hz and the single impedance
  \<open>0 + j * (2 * pi * 1e6 * 1e-6)\<close> Ohm, the call returns \<open>mu_real[0] = 15\<close>,
  \<open>mu_imag[0] = 0\<close> and \<open>complex_permeability[0] = 15 - 0j\<close>:
  the inductance is \<open>1e-6\<close>, the mean length \<open>pi * 0.015\<close>, the cross section
  \<open>2.5e-5\<close>, and \<open>(1e-6 * pi * 0.015) / (4 * pi * 1e-7 * 100 * 2.5e-5) = 15\<close>.
\<close>

theorem concrete_scenario:
  "\<exists>cp mr mi.
     calculate_permeability [Complex 0 (2 * pi * 10 ^ 6 * (1 / 10 ^ 6))] [10 ^ 6]
       \<lparr>outer_diameter = 20 / 1000, inner_diameter = 10 / 1000,
        height = 5 / 1000, turns = 10\<rparr> = Inr (cp, mr, mi) \<and>
     mr ! 0 = Some 15 \<and> mi ! 0 = Some 0 \<and>
     cp ! 0 = Some (complex_of_real 15 - \<i> * complex_of_real 0)"
  by (simp add: calculate_permeability_def broadcast_def Let_def np_divide_def
      where_nonzero_divide_def np_multiply_def sub_1j_mul_def)

text \<open>
  Claim C2 as stated expects \<open>mu_real[0]\<close> to be approximately 1499.7.  The call returns
  the outputs below, and 15 is further than 1000 from 1499.7.
\<close>

theorem concrete_scenario_counterexample:
  "calculate_permeability [Complex 0 (2 * pi * 10 ^ 6 * (1 / 10 ^ 6))] [10 ^ 6]
     \<lparr>outer_diameter = 20 / 1000, inner_diameter = 10 / 1000,
      height = 5 / 1000, turns = 10\<rparr>
     = Inr ([Some (Complex 15 0)], [Some 15], [Some 0])
   \<and> \<not> \<bar>(15 :: real) - 1499.7\<bar> \<le> 1000"
  by (simp add: calculate_permeability_def broadcast_def Let_def np_divide_def
      where_nonzero_divide_def np_multiply_def sub_1j_mul_def complex_eq_iff)

end
